theory Spec2Isabelle
  imports Complex_Main
begin

section \<open>Common ground: exceptions and library methods\<close>

text \<open>
  The notebooks are glue around an external modelling library: agent objects are built by
  the library, and \<^verbatim>\<open>solve()\<close>, \<^verbatim>\<open>initializeSim()\<close> and \<^verbatim>\<open>simulate()\<close> are its methods.
  Their bodies are not part of the notebooks, so they enter every definition below as
  parameters. Numbers are numpy/Python floats in the source and \<^typ>\<open>real\<close> here.
\<close>

datatype py_exception = AttributeError | IndexError | ZeroDivisionError | Exception string

text \<open>
  A library method called on an object: it reports the exception it raised, if any, and
  the state in which it left the object (a raising method may already have written some
  attributes).
\<close>

type_synonym 'obj py_method = "'obj \<Rightarrow> py_exception option \<times> 'obj"


section \<open>Annualising quarterly MPCs\<close>

text \<open>
  \<^verbatim>\<open>MPCpercentiles_annual = 1.0 - (1.0 - MPCpercentiles_quarterly)**4\<close>
  on a numpy array: the arithmetic is applied to every element.
\<close>

definition MPCpercentiles_annual :: "real list \<Rightarrow> real list" where
  "MPCpercentiles_annual MPCpercentiles_quarterly =
     map (\<lambda>q. 1 - (1 - q) ^ 4) MPCpercentiles_quarterly"

text \<open>
  The conversion as the specification words it, for any number of periods per year:
  \<^verbatim>\<open>1 - (1-mpc_period)^periods_per_year\<close>.
\<close>

definition annualize :: "real \<Rightarrow> nat \<Rightarrow> real" where
  "annualize mpc_period periods_per_year = 1 - (1 - mpc_period) ^ periods_per_year"


section \<open>The tractable buffer stock plot\<close>

text \<open>
  The numeric attributes of the agent object \<^verbatim>\<open>MyTBStype\<close>. The five parameters come from
  \<^verbatim>\<open>TBS_dictionary\<close>; the other attributes are written by the library's \<^verbatim>\<open>solve()\<close> and do
  not exist before (\<^const>\<open>None\<close>), so reading them then raises \<^verbatim>\<open>AttributeError\<close>.
  \<^verbatim>\<open>PFMPC\<close> is not read by the notebook itself but by the unemployed consumption function
  that the library stores in the solution.
\<close>

record TractableAttributes =
  DiscFac :: real
  CRRA :: real
  Rfree :: real
  PermGroFac :: real
  UnempPrb :: real
  PermGroFacCmp :: "real option"
  PFMPC :: "real option"
  mTarg :: "real option"
  cTarg :: "real option"

text \<open>
  The solution object, as far as the notebook reads it. The employed consumption function
  is an interpolant fixed when the solver made it. The unemployed one is a closure over
  the agent (\<^verbatim>\<open>lambda m : self.PFMPC*m\<close> in the library): each call reads the attributes the
  agent has at that moment, so it takes them as an argument, works on a whole array, and
  can raise.
\<close>

record TractableSolution =
  cFunc :: "real \<Rightarrow> real"
  cFunc_U :: "TractableAttributes \<Rightarrow> real list \<Rightarrow> py_exception + real list"

text \<open>The agent object: its numeric attributes and the list \<^verbatim>\<open>solution\<close>.\<close>

record TractableConsumerType = TractableAttributes +
  solution :: "TractableSolution list option"

text \<open>What the function sends to pyplot, in order.\<close>

datatype plot_cmd =
    Xlabel string
  | Ylabel string
  | Ylim real real
  | Xlim real real
  | Plot "real list" "real list" string
  | Annotate real real
  | Show

text \<open>\<^verbatim>\<open>np.linspace(start, stop, num=num, endpoint=True)\<close>\<close>

definition linspace :: "real \<Rightarrow> real \<Rightarrow> nat \<Rightarrow> real list" where
  "linspace start stop num =
     map (\<lambda>i. start + real i * ((stop - start) / real (num - 1))) [0..<num]"

text \<open>\<^verbatim>\<open>c[m==0.] = 0.\<close>\<close>

definition zero_where_m_is_zero :: "real list \<Rightarrow> real list \<Rightarrow> real list" where
  "zero_where_m_is_zero m c = map2 (\<lambda>mi ci. if mi = 0 then 0 else ci) m c"

text \<open>\<^verbatim>\<open>MyTBStype.solution[0]\<close>\<close>

definition solution0 :: "TractableConsumerType \<Rightarrow> py_exception + TractableSolution" where
  "solution0 a =
     (case solution a of
        None \<Rightarrow> Inl AttributeError
      | Some [] \<Rightarrow> Inl IndexError
      | Some (s # _) \<Rightarrow> Inr s)"

text \<open>
  \<^verbatim>\<open>
  if plot_emp:
      c = MyTBStype.solution[0].cFunc(m)
      c[m==0.] = 0.
      plt.plot(m,c,'-b')
  \<close>
\<close>

definition plot_emp_block :: "TractableConsumerType \<Rightarrow> real list \<Rightarrow> bool \<Rightarrow> py_exception + plot_cmd list" where
  "plot_emp_block a m plot_emp =
     (if plot_emp then
        (case solution0 a of
           Inl e \<Rightarrow> Inl e
         | Inr s \<Rightarrow> Inr [Plot m (zero_where_m_is_zero m (map (cFunc s) m)) ''-b''])
      else Inr [])"

text \<open>
  \<^verbatim>\<open>
  if plot_mSS:
      plt.plot([mMin,mMax],
               [(MyTBStype.PermGroFacCmp/MyTBStype.Rfree + mMin*(1.0-MyTBStype.PermGroFacCmp/MyTBStype.Rfree)),
                (MyTBStype.PermGroFacCmp/MyTBStype.Rfree + mMax*(1.0-MyTBStype.PermGroFacCmp/MyTBStype.Rfree))],'--k')
  \<close>
  Division of Python floats by zero raises.
\<close>

definition plot_mSS_block :: "TractableConsumerType \<Rightarrow> real \<Rightarrow> real \<Rightarrow> bool \<Rightarrow> py_exception + plot_cmd list" where
  "plot_mSS_block a mMin mMax plot_mSS =
     (if plot_mSS then
        (case PermGroFacCmp a of
           None \<Rightarrow> Inl AttributeError
         | Some g \<Rightarrow>
             if Rfree a = 0 then Inl ZeroDivisionError
             else Inr [Plot [mMin, mMax]
                            [g / Rfree a + mMin * (1 - g / Rfree a),
                             g / Rfree a + mMax * (1 - g / Rfree a)] ''--k''])
      else Inr [])"

text \<open>
  \<^verbatim>\<open>
  if plot_ret:
      c = MyTBStype.solution[0].cFunc_U(m)
      plt.plot(m,c,'-g')
  \<close>
\<close>

definition plot_ret_block :: "TractableConsumerType \<Rightarrow> real list \<Rightarrow> bool \<Rightarrow> py_exception + plot_cmd list" where
  "plot_ret_block a m plot_ret =
     (if plot_ret then
        (case solution0 a of
           Inl e \<Rightarrow> Inl e
         | Inr s \<Rightarrow>
             (case cFunc_U s (TractableAttributes.truncate a) m of
                Inl e \<Rightarrow> Inl e
              | Inr c \<Rightarrow> Inr [Plot m c ''-g'']))
      else Inr [])"

text \<open>
  \<^verbatim>\<open>
  if show_targ:
      mTarg = MyTBStype.mTarg
      cTarg = MyTBStype.cTarg
      targ_label = '$m^* =$' + mystr(mTarg) + '\n$c^* =$' + mystr(cTarg)
      plt.annotate(targ_label,xy=(0.0,0.0),xytext=(0.8,0.05),textcoords='axes fraction')
  \<close>
  The annotation carries the two numbers; the label is their rendering with three decimals.
\<close>

definition show_targ_block :: "TractableConsumerType \<Rightarrow> bool \<Rightarrow> py_exception + plot_cmd list" where
  "show_targ_block a show_targ =
     (if show_targ then
        (case mTarg a of
           None \<Rightarrow> Inl AttributeError
         | Some mT \<Rightarrow>
             (case cTarg a of
                None \<Rightarrow> Inl AttributeError
              | Some cT \<Rightarrow> Inr [Annotate mT cT]))
      else Inr [])"

text \<open>
  Statements run in order; the first exception stops the run, and what was sent to pyplot
  before it stays sent.
\<close>

fun in_sequence :: "(py_exception + plot_cmd list) list \<Rightarrow> plot_cmd list \<times> py_exception option" where
  "in_sequence [] = ([], None)"
| "in_sequence (Inl e # _) = ([], Some e)"
| "in_sequence (Inr cs # rest) = (case in_sequence rest of (cs', e) \<Rightarrow> (cs @ cs', e))"

text \<open>Everything after the \<^verbatim>\<open>try\<close> statement: the drawing, from the object as it then is.\<close>

definition draw_TBSplot ::
  "TractableConsumerType \<Rightarrow> real \<Rightarrow> real \<Rightarrow> real \<Rightarrow> real \<Rightarrow> bool \<Rightarrow> bool \<Rightarrow> bool \<Rightarrow> bool
     \<Rightarrow> plot_cmd list \<times> py_exception option" where
  "draw_TBSplot a mMax mMin cMin cMax plot_emp plot_ret plot_mSS show_targ =
     (let m = linspace mMin mMax 100
      in in_sequence
           [Inr [Xlabel ''Market resources $M_t$'', Ylabel ''Consumption $C_t$'',
                 Ylim cMin cMax, Xlim mMin mMax],
            plot_emp_block a m plot_emp,
            plot_mSS_block a mMin mMax plot_mSS,
            plot_ret_block a m plot_ret,
            show_targ_block a show_targ,
            Inr [Show]])"

text \<open>
  \<^verbatim>\<open>
  MyTBStype.DiscFac = DiscFac
  MyTBStype.CRRA = CRRA
  MyTBStype.PermGroFac = PermGroFac
  MyTBStype.UnempPrb = UnempPrb
  \<close>
  The argument \<^verbatim>\<open>Rfree\<close> is not assigned.
\<close>

definition assign_parameters ::
  "TractableConsumerType \<Rightarrow> real \<Rightarrow> real \<Rightarrow> real \<Rightarrow> real \<Rightarrow> TractableConsumerType" where
  "assign_parameters a DiscFac' CRRA' PermGroFac' UnempPrb' =
     a\<lparr>DiscFac := DiscFac', CRRA := CRRA', PermGroFac := PermGroFac', UnempPrb := UnempPrb'\<rparr>"

text \<open>
  \<^verbatim>\<open>
  try:
      MyTBStype.solve()
  except:
      print('Those parameter values violate a condition required for solution!')
  \<close>
  The result is the object after the call and what was printed.
\<close>

definition try_solve ::
  "TractableConsumerType py_method \<Rightarrow> TractableConsumerType \<Rightarrow> TractableConsumerType \<times> string list" where
  "try_solve solve a =
     (case solve a of
        (None, a') \<Rightarrow> (a', [])
      | (Some _, a') \<Rightarrow> (a', [''Those parameter values violate a condition required for solution!'']))"

text \<open>
  \<^verbatim>\<open>def makeTBSplot(DiscFac,CRRA,Rfree,PermGroFac,UnempPrb,mMax,mMin,cMin,cMax,plot_emp,plot_ret,plot_mSS,show_targ)\<close>
  with the global \<^verbatim>\<open>MyTBStype\<close> and its \<^verbatim>\<open>solve\<close> method made explicit. The result is the
  global object afterwards, the printed lines, the pyplot commands, and the exception
  that left the function, if any.
\<close>

definition makeTBSplot ::
  "TractableConsumerType py_method \<Rightarrow> TractableConsumerType
     \<Rightarrow> real \<Rightarrow> real \<Rightarrow> real \<Rightarrow> real \<Rightarrow> real \<Rightarrow> real \<Rightarrow> real \<Rightarrow> real \<Rightarrow> real
     \<Rightarrow> bool \<Rightarrow> bool \<Rightarrow> bool \<Rightarrow> bool
     \<Rightarrow> TractableConsumerType \<times> string list \<times> plot_cmd list \<times> py_exception option" where
  "makeTBSplot solve MyTBStype DiscFac' CRRA' Rfree' PermGroFac' UnempPrb' mMax mMin cMin cMax
       plot_emp plot_ret plot_mSS show_targ =
     (case try_solve solve (assign_parameters MyTBStype DiscFac' CRRA' PermGroFac' UnempPrb') of
        (a, printed) \<Rightarrow>
          (case draw_TBSplot a mMax mMin cMin cMax plot_emp plot_ret plot_mSS show_targ of
             (cmds, raised) \<Rightarrow> (a, printed, cmds, raised)))"


subsection \<open>A sample agent and a stand-in for the library's solver\<close>






section \<open>The experiment with very impatient households\<close>

text \<open>
  Agent objects live in a store and the lists \<^verbatim>\<open>MyTypes\<close> and \<^verbatim>\<open>NewTypes\<close> hold references
  to them, so that copying a list and copying the objects it refers to are different
  things. The store hands out addresses in increasing order; \<open>next_addr\<close> is the next free one.
\<close>

type_synonym addr = nat

record IndShockConsumerType =
  DiscFac :: real
  seed :: int
  solution :: "(real \<Rightarrow> real) list option"
  aLvlNow :: "real list option"
  MPCnow :: "real list option"

record store =
  cells :: "addr \<Rightarrow> IndShockConsumerType"
  next_addr :: addr

text \<open>
  \<^verbatim>\<open>deepcopy\<close> of a list of object references, with the memo table of \<^verbatim>\<open>copy.deepcopy\<close>:
  an object met for the first time is copied into a fresh cell, an object met again is
  represented by the copy made before. Attribute values are copied with the object
  (they are values in the record).
\<close>

fun deepcopy_refs ::
  "store \<Rightarrow> (addr \<rightharpoonup> addr) \<Rightarrow> addr list \<Rightarrow> store \<times> (addr \<rightharpoonup> addr) \<times> addr list" where
  "deepcopy_refs h memo [] = (h, memo, [])"
| "deepcopy_refs h memo (r # rs) =
     (case memo r of
        Some r' \<Rightarrow>
          (case deepcopy_refs h memo rs of (h', memo', rs') \<Rightarrow> (h', memo', r' # rs'))
      | None \<Rightarrow>
          (let r' = next_addr h;
               h1 = h\<lparr>cells := (cells h)(r' := cells h r), next_addr := Suc r'\<rparr>
           in case deepcopy_refs h1 (memo(r \<mapsto> r')) rs of
                (h', memo', rs') \<Rightarrow> (h', memo', r' # rs')))"

definition deepcopy :: "store \<Rightarrow> addr list \<Rightarrow> store \<times> addr list" where
  "deepcopy h refs = (case deepcopy_refs h Map.empty refs of (h', _, refs') \<Rightarrow> (h', refs'))"

text \<open>
  A method call \<^verbatim>\<open>obj.method()\<close> through a reference: the method works on the object it
  is called on, and the store keeps whatever state the method left it in.
\<close>

definition call :: "IndShockConsumerType py_method \<Rightarrow> addr \<Rightarrow> store \<Rightarrow> py_exception option \<times> store" where
  "call meth r h =
     (case meth (cells h r) of (e, obj) \<Rightarrow> (e, h\<lparr>cells := (cells h)(r := obj)\<rparr>))"

text \<open>
  \<^verbatim>\<open>
  NewTypes[0].DiscFac = 0.8
  NewTypes[0].solve()
  NewTypes[0].initializeSim()
  NewTypes[0].simulate()
  \<close>
  on the object at address \<open>r\<close>; an exception ends the cell.
\<close>

definition resolve_first ::
  "IndShockConsumerType py_method \<Rightarrow> IndShockConsumerType py_method \<Rightarrow> IndShockConsumerType py_method
     \<Rightarrow> addr \<Rightarrow> store \<Rightarrow> py_exception option \<times> store" where
  "resolve_first solve initializeSim simulate r h =
     (let h1 = h\<lparr>cells := (cells h)(r := (cells h r)\<lparr>DiscFac := 0.8\<rparr>)\<rparr>
      in case call solve r h1 of
           (Some e, h2) \<Rightarrow> (Some e, h2)
         | (None, h2) \<Rightarrow>
             (case call initializeSim r h2 of
                (Some e, h3) \<Rightarrow> (Some e, h3)
              | (None, h3) \<Rightarrow> call simulate r h3))"

text \<open>
  The first statements of the cell, from \<^verbatim>\<open>NewTypes = deepcopy(MyTypes)\<close> to
  \<^verbatim>\<open>NewTypes[0].simulate()\<close>. The result is the store afterwards, the list bound to
  \<^verbatim>\<open>NewTypes\<close>, and the exception that ended the cell, if any. \<^verbatim>\<open>NewTypes[0]\<close> on an empty
  list raises \<^verbatim>\<open>IndexError\<close>.
\<close>

definition very_impatient_cell ::
  "IndShockConsumerType py_method \<Rightarrow> IndShockConsumerType py_method \<Rightarrow> IndShockConsumerType py_method
     \<Rightarrow> store \<Rightarrow> addr list \<Rightarrow> store \<times> addr list \<times> py_exception option" where
  "very_impatient_cell solve initializeSim simulate h MyTypes =
     (case deepcopy h MyTypes of
        (h1, NewTypes) \<Rightarrow>
          (case NewTypes of
             [] \<Rightarrow> (h1, NewTypes, Some IndexError)
           | r # _ \<Rightarrow>
               (case resolve_first solve initializeSim simulate r h1 of
                  (e, h2) \<Rightarrow> (h2, NewTypes, e))))"

text \<open>
  For comparison, the same statements with \<^verbatim>\<open>NewTypes = MyTypes\<close> (no copy at all): both
  names then refer to the same objects.
\<close>

definition very_impatient_cell_aliased ::
  "IndShockConsumerType py_method \<Rightarrow> IndShockConsumerType py_method \<Rightarrow> IndShockConsumerType py_method
     \<Rightarrow> store \<Rightarrow> addr list \<Rightarrow> store \<times> addr list \<times> py_exception option" where
  "very_impatient_cell_aliased solve initializeSim simulate h MyTypes =
     (case MyTypes of
        [] \<Rightarrow> (h, MyTypes, Some IndexError)
      | r # _ \<Rightarrow>
          (case resolve_first solve initializeSim simulate r h of
             (e, h2) \<Rightarrow> (h2, MyTypes, e)))"


subsection \<open>A sample store and sample methods\<close>

text \<open>
  Two agents at the addresses 0 and 1, differing in their seeds, and stand-ins for the
  three library methods that write the attributes the notebook reads afterwards.
\<close>

definition agent0 :: IndShockConsumerType where
  "agent0 = \<lparr>DiscFac = 0.97, seed = 0, solution = None, aLvlNow = None, MPCnow = None\<rparr>"

definition solve0 :: "IndShockConsumerType py_method" where
  "solve0 a = (None, a\<lparr>solution := Some [\<lambda>m. DiscFac a * m]\<rparr>)"

definition initializeSim0 :: "IndShockConsumerType py_method" where
  "initializeSim0 a = (None, a\<lparr>aLvlNow := Some [0, 0], MPCnow := None\<rparr>)"

definition simulate0 :: "IndShockConsumerType py_method" where
  "simulate0 a = (None, a\<lparr>aLvlNow := Some [1, 2], MPCnow := Some [0.5, 0.25]\<rparr>)"

definition store0 :: store where
  "store0 = \<lparr>cells = (\<lambda>r. agent0\<lparr>seed := int r\<rparr>), next_addr = 2\<rparr>"


section \<open>Annualised MPCs: the conversion\<close>

text \<open>
  Claim C1. For every quarterly MPC (in particular every one in \<open>[0,1]\<close>) the notebook's
  annual MPC is \<open>1 - (1 - mpc_period)^4\<close>, the specification's conversion with four periods
  per year; the quarterly values 0, 1 and 0.5 become 0, 1 and 0.9375. Floats are read as
  reals; at 0, 1 and 0.5 every intermediate value is a dyadic number that binary
  floating point holds exactly.
\<close>

theorem MPCpercentiles_annual_is_annualize:
  "MPCpercentiles_annual qs = map (\<lambda>mpc_period. annualize mpc_period 4) qs
   \<and> MPCpercentiles_annual [0, 1, 0.5] = [0, 1, 0.9375]
   \<and> annualize 0 4 = 0 \<and> annualize 1 4 = 1 \<and> annualize 0.5 4 = 0.9375"
  by (simp add: MPCpercentiles_annual_def annualize_def power_one_over)


section \<open>The plot after a failed solve\<close>

text \<open>
  Whatever \<^verbatim>\<open>solve()\<close> does, its exception never leaves \<^verbatim>\<open>makeTBSplot\<close>: the function goes
  on to draw from the object as the call left it, and the message is printed exactly when
  an exception was raised.
\<close>

lemma makeTBSplot_never_passes_on_solve_exception:
  "makeTBSplot solve MyTBStype d c R g u mMax mMin cMin cMax plot_emp plot_ret plot_mSS show_targ =
     (let (raised, a) = solve (assign_parameters MyTBStype d c g u)
      in (a,
          (if raised = None then []
           else [''Those parameter values violate a condition required for solution!'']),
          draw_TBSplot a mMax mMin cMin cMax plot_emp plot_ret plot_mSS show_targ))"
  by (auto simp: makeTBSplot_def try_solve_def split: prod.splits option.splits)

text \<open>The value plotted for the employed consumer is 0 wherever the grid point is 0.\<close>

lemma zero_where_m_is_zero_nth:
  "i < length m \<Longrightarrow> i < length c \<Longrightarrow>
     zero_where_m_is_zero m c ! i = (if m ! i = 0 then 0 else c ! i)"
  by (simp add: zero_where_m_is_zero_def)










section \<open>The deep copy in the experiment with very impatient households\<close>

text \<open>
  Copying allocates above every address in use, leaves every cell below untouched and
  returns references to the new cells only (or to copies made earlier, through the memo
  table).
\<close>

lemma deepcopy_refs_frame:
  "deepcopy_refs h memo rs = (h', memo', rs') \<Longrightarrow>
     next_addr h \<le> next_addr h'
     \<and> (\<forall>r < next_addr h. cells h' r = cells h r)
     \<and> set rs' \<subseteq> ran memo \<union> {next_addr h ..< next_addr h'}
     \<and> ran memo' \<subseteq> ran memo \<union> {next_addr h ..< next_addr h'}
     \<and> length rs' = length rs"
proof (induction rs arbitrary: h memo h' memo' rs')
  case Nil
  then show ?case by auto
next
  case (Cons r rs)
  show ?case
  proof (cases "memo r")
    case (Some r')
    then obtain rs2 where rec: "deepcopy_refs h memo rs = (h', memo', rs2)" and rs': "rs' = r' # rs2"
      using Cons.prems by (auto split: prod.splits)
    from Cons.IH [OF rec] Some rs' show ?thesis
      by (auto simp: ran_def)
  next
    case None
    define h1 where "h1 = h\<lparr>cells := (cells h)(next_addr h := cells h r), next_addr := Suc (next_addr h)\<rparr>"
    from None obtain rs2 where rec: "deepcopy_refs h1 (memo(r \<mapsto> next_addr h)) rs = (h', memo', rs2)"
      and rs': "rs' = next_addr h # rs2"
      using Cons.prems by (auto simp: h1_def Let_def split: prod.splits)
    have ran: "ran (memo(r \<mapsto> next_addr h)) \<subseteq> insert (next_addr h) (ran memo)"
      using None by (auto simp: ran_def)
    have top1: "next_addr h1 = Suc (next_addr h)"
      and cells1: "\<And>x. x < next_addr h \<Longrightarrow> cells h1 x = cells h x"
      by (simp_all add: h1_def)
    note ih = Cons.IH [OF rec]
    have a: "next_addr h \<le> next_addr h'" using ih top1 by simp
    have b: "\<forall>x < next_addr h. cells h' x = cells h x" using ih top1 cells1 by simp
    have c: "set rs2 \<subseteq> ran memo \<union> {next_addr h ..< next_addr h'}"
      using ih ran top1 by fastforce
    have d: "ran memo' \<subseteq> ran memo \<union> {next_addr h ..< next_addr h'}"
      using ih ran top1 by fastforce
    have e: "next_addr h < next_addr h'" using ih top1 by simp
    have f: "length rs2 = length rs" using ih by simp
    from a b c d e f rs' show ?thesis by simp
  qed
qed

text \<open>The copies hold what the originals hold.\<close>

lemma deepcopy_refs_content:
  "deepcopy_refs h memo rs = (h', memo', rs') \<Longrightarrow>
   \<forall>r \<in> set rs. r < next_addr h \<Longrightarrow>
   \<forall>r r'. memo r = Some r' \<longrightarrow> r < next_addr h \<and> r' < next_addr h \<and> cells h r' = cells h r \<Longrightarrow>
     map (cells h') rs' = map (cells h) rs"
proof (induction rs arbitrary: h memo h' memo' rs')
  case Nil
  then show ?case by auto
next
  case (Cons r rs)
  note frame = deepcopy_refs_frame
  show ?case
  proof (cases "memo r")
    case (Some r')
    then obtain rs2 where rec: "deepcopy_refs h memo rs = (h', memo', rs2)" and rs': "rs' = r' # rs2"
      using Cons.prems(1) by (auto split: prod.splits)
    have tl: "map (cells h') rs2 = map (cells h) rs"
      using Cons.IH [OF rec] Cons.prems(2,3) by simp
    have "r' < next_addr h" "cells h r' = cells h r" using Cons.prems(3) Some by auto
    moreover have "cells h' r' = cells h r'" using frame [OF rec] \<open>r' < next_addr h\<close> by simp
    ultimately show ?thesis using tl rs' by simp
  next
    case None
    define h1 where "h1 = h\<lparr>cells := (cells h)(next_addr h := cells h r), next_addr := Suc (next_addr h)\<rparr>"
    from None obtain rs2 where rec: "deepcopy_refs h1 (memo(r \<mapsto> next_addr h)) rs = (h', memo', rs2)"
      and rs': "rs' = next_addr h # rs2"
      using Cons.prems(1) by (auto simp: h1_def Let_def split: prod.splits)
    have top1: "next_addr h1 = Suc (next_addr h)"
      and cells1: "\<And>x. x < next_addr h \<Longrightarrow> cells h1 x = cells h x"
      and new1: "cells h1 (next_addr h) = cells h r"
      by (simp_all add: h1_def)
    have r_lt: "r < next_addr h" using Cons.prems(2) by simp
    have valid: "\<forall>x \<in> set rs. x < next_addr h1" using Cons.prems(2) top1 by auto
    have memo_ok: "\<forall>x x'. (memo(r \<mapsto> next_addr h)) x = Some x'
                     \<longrightarrow> x < next_addr h1 \<and> x' < next_addr h1 \<and> cells h1 x' = cells h1 x"
    proof (intro allI impI)
      fix x x' assume m: "(memo(r \<mapsto> next_addr h)) x = Some x'"
      show "x < next_addr h1 \<and> x' < next_addr h1 \<and> cells h1 x' = cells h1 x"
      proof (cases "x = r")
        case True
        then have "x' = next_addr h" using m by simp
        then show ?thesis using True top1 new1 cells1 [OF r_lt] r_lt by simp
      next
        case False
        then have mx: "memo x = Some x'" using m by simp
        then have "x < next_addr h" "x' < next_addr h" "cells h x' = cells h x"
          using Cons.prems(3) by auto
        then show ?thesis using top1 cells1 by simp
      qed
    qed
    have tl: "map (cells h') rs2 = map (cells h1) rs"
      using Cons.IH [OF rec valid memo_ok] .
    have same: "map (cells h1) rs = map (cells h) rs"
      using Cons.prems(2) cells1 by simp
    have "next_addr h < next_addr h1" using top1 by simp
    then have "cells h' (next_addr h) = cells h1 (next_addr h)"
      using frame [OF rec] by simp
    then show ?thesis using tl same rs' new1 by simp
  qed
qed

lemma call_frame:
  "call meth r h = (e, h') \<Longrightarrow> next_addr h' = next_addr h \<and> (\<forall>x. x \<noteq> r \<longrightarrow> cells h' x = cells h x)"
  by (auto simp: call_def split: prod.splits)

lemma resolve_first_frame:
  assumes "resolve_first solve initializeSim simulate r h = (e, h')"
  shows "\<forall>x. x \<noteq> r \<longrightarrow> cells h' x = cells h x"
  using assms unfolding resolve_first_def Let_def
  by (auto split: prod.splits option.splits dest!: call_frame)

text \<open>
  Claim C10. \<^verbatim>\<open>NewTypes\<close> is a deep copy of \<^verbatim>\<open>MyTypes\<close>: as many references, to fresh
  objects holding what the originals hold. Setting \<^verbatim>\<open>NewTypes[0].DiscFac\<close> to 0.8 and
  calling \<^verbatim>\<open>solve()\<close>, \<^verbatim>\<open>initializeSim()\<close> and \<^verbatim>\<open>simulate()\<close> on \<^verbatim>\<open>NewTypes[0]\<close> therefore
  leaves every object of \<^verbatim>\<open>MyTypes\<close> as it was, with its \<^verbatim>\<open>DiscFac\<close>, its solution and its
  simulated \<^verbatim>\<open>aLvlNow\<close> and \<^verbatim>\<open>MPCnow\<close>, whether or not one of the calls raises.
\<close>

theorem deepcopy_experiment_leaves_MyTypes_unchanged:
  assumes valid: "\<forall>r \<in> set MyTypes. r < next_addr h"
    and run: "very_impatient_cell solve initializeSim simulate h MyTypes = (h', NewTypes, e)"
  shows "(\<forall>r \<in> set MyTypes. cells h' r = cells h r)
       \<and> set NewTypes \<inter> set MyTypes = {}
       \<and> length NewTypes = length MyTypes
       \<and> map (cells (fst (deepcopy h MyTypes))) NewTypes = map (cells h) MyTypes"
proof -
  obtain h1 memo1 where dc: "deepcopy_refs h Map.empty MyTypes = (h1, memo1, NewTypes)"
    using run by (auto simp: very_impatient_cell_def deepcopy_def split: prod.splits list.splits)
  then have dc': "deepcopy h MyTypes = (h1, NewTypes)" by (simp add: deepcopy_def)
  note fr = deepcopy_refs_frame [OF dc]
  have fresh: "\<forall>r \<in> set NewTypes. next_addr h \<le> r" using fr by auto
  have disj: "set NewTypes \<inter> set MyTypes = {}" using fresh valid by fastforce
  have same1: "\<forall>r \<in> set MyTypes. cells h1 r = cells h r" using fr valid by simp
  have content: "map (cells h1) NewTypes = map (cells h) MyTypes"
    using deepcopy_refs_content [OF dc valid] by simp
  have same2: "\<forall>r \<in> set MyTypes. cells h' r = cells h1 r"
  proof (cases NewTypes)
    case Nil
    then show ?thesis using run dc' by (simp add: very_impatient_cell_def)
  next
    case (Cons n ns)
    then have rf: "resolve_first solve initializeSim simulate n h1 = (e, h')"
      using run dc' by (auto simp: very_impatient_cell_def split: prod.splits)
    have "n \<notin> set MyTypes" using disj Cons by auto
    then show ?thesis using resolve_first_frame [OF rf] by auto
  qed
  show ?thesis using same1 same2 disj fr content dc' by simp
qed

theorem deepcopy_experiment_witness:
  "0 < next_addr store0 \<and> 1 < next_addr store0
   \<and> (case very_impatient_cell solve0 initializeSim0 simulate0 store0 [0, 1] of
        (h', NewTypes, e) \<Rightarrow>
          NewTypes = [2, 3] \<and> e = None
          \<and> cells h' 0 = cells store0 0 \<and> cells h' 1 = cells store0 1
          \<and> DiscFac (cells h' 2) = 0.8 \<and> DiscFac (cells h' 0) = 0.97
          \<and> MPCnow (cells h' 2) = Some [0.5, 0.25] \<and> MPCnow (cells h' 0) = None)"
proof -
  have valid: "\<forall>r \<in> set [0, 1]. r < next_addr store0" by (simp add: store0_def)
  obtain h' NewTypes e where
    run: "very_impatient_cell solve0 initializeSim0 simulate0 store0 [0, 1] = (h', NewTypes, e)"
    by (cases "very_impatient_cell solve0 initializeSim0 simulate0 store0 [0, 1]") auto
  have unchanged: "cells h' 0 = cells store0 0 \<and> cells h' 1 = cells store0 1"
    using deepcopy_experiment_leaves_MyTypes_unchanged [OF valid run] by simp
  have rest: "NewTypes = [2, 3] \<and> e = None \<and> DiscFac (cells h' 2) = 0.8
      \<and> MPCnow (cells h' 2) = Some [0.5, 0.25]"
    using run
    by (auto simp: very_impatient_cell_def deepcopy_def resolve_first_def call_def Let_def
         store0_def solve0_def initializeSim0_def simulate0_def agent0_def)
  have orig: "DiscFac (cells store0 0) = 0.97 \<and> MPCnow (cells store0 0) = None"
    by (simp add: store0_def agent0_def)
  show ?thesis using valid run unchanged rest orig by simp
qed

text \<open>
  Without the copy the same statements do change the original: with \<^verbatim>\<open>NewTypes = MyTypes\<close>
  the first agent of \<^verbatim>\<open>MyTypes\<close> gets the new discount factor.
\<close>

lemma aliased_experiment_changes_MyTypes:
  "cells (fst (very_impatient_cell_aliased (\<lambda>a. (None, a)) (\<lambda>a. (None, a)) (\<lambda>a. (None, a))
        \<lparr>cells = (\<lambda>_. agent0), next_addr = 1\<rparr> [0])) 0 \<noteq> agent0"
  by (simp add: very_impatient_cell_aliased_def resolve_first_def call_def agent0_def)

end
